theory Spec2Isabelle
  imports Main
begin

section \<open>The consumer side of igraph's C API header\<close>

text \<open>
  \<^verbatim>\<open>igraphmodule_api.h\<close> is the header a native extension includes to reach two functions
  of the Python module \<^verbatim>\<open>igraph._igraph\<close> through a table of function pointers. The
  consumer part (the \<^verbatim>\<open>#else\<close> branch of \<^verbatim>\<open>#ifdef IGRAPH_MODULE\<close>) holds one static
  variable, \<^verbatim>\<open>PyIGraph_API\<close>, two macros that read the table, and the function
  \<^verbatim>\<open>import_igraph\<close> that fills the variable.
\<close>

subsection \<open>Pointers\<close>

text \<open>
  A \<^verbatim>\<open>PyObject*\<close> and a \<^verbatim>\<open>void*\<close> are addresses; \<open>0\<close> is the null pointer, the value the
  source compares with (\<^verbatim>\<open>module == 0\<close>). No pointer arithmetic is done on them.
\<close>

type_synonym obj = nat
type_synonym voidptr = nat

subsection \<open>The Python runtime, as far as the header calls it\<close>

text \<open>
  The five runtime entry points \<^verbatim>\<open>import_igraph\<close> uses are not part of the header: they
  belong to the interpreter the extension is loaded into. They are parameters of the
  model. \<open>'r\<close> is the state of the interpreter (module registry, objects, reference counts,
  error indicator); every entry point may read and change it. \<open>PyErr_Occurred\<close> is the
  runtime's own query for a pending exception (null when there is none); the header never
  calls it, it is here to speak about the error indicator.
\<close>

record 'r py_runtime =
  PyImport_ImportModule :: "string \<Rightarrow> 'r \<Rightarrow> obj \<times> 'r"
  PyObject_GetAttrString :: "obj \<Rightarrow> string \<Rightarrow> 'r \<Rightarrow> obj \<times> 'r"
  PyCObject_Check :: "obj \<Rightarrow> 'r \<Rightarrow> bool \<times> 'r"
  PyCObject_AsVoidPtr :: "obj \<Rightarrow> 'r \<Rightarrow> voidptr \<times> 'r"
  Py_DECREF :: "obj \<Rightarrow> 'r \<Rightarrow> 'r"
  PyErr_Occurred :: "'r \<Rightarrow> obj"

subsection \<open>Process state\<close>

text \<open>
  \<^verbatim>\<open>static void** PyIGraph_API;\<close> is the only variable the header declares. \<open>py\<close> is the
  interpreter's state. Whatever else the process holds is the record's extension.
\<close>

record 'r process =
  PyIGraph_API :: voidptr
  py :: 'r

subsection \<open>The table's layout\<close>

text \<open>
  \<^verbatim>\<open>
  #define PyIGraph_FromCGraph_NUM 0
  #define PyIGraph_FromCGraph_RETURN PyObject*
  #define PyIGraph_FromCGraph_PROTO (igraph_t *graph)

  #define PyIGraph_ToCGraph_NUM 1
  #define PyIGraph_ToCGraph_RETURN igraph_t*
  #define PyIGraph_ToCGraph_PROTO (PyObject *graph)

  /* Total number of C API pointers */
  #define PyIGraph_API_pointers 2
  \<close>
\<close>

datatype ctype = PyObject_ptr | igraph_t_ptr

definition PyIGraph_FromCGraph_NUM :: nat where
  "PyIGraph_FromCGraph_NUM = 0"

definition PyIGraph_FromCGraph_RETURN :: ctype where
  "PyIGraph_FromCGraph_RETURN = PyObject_ptr"

definition PyIGraph_FromCGraph_PROTO :: "ctype list" where
  "PyIGraph_FromCGraph_PROTO = [igraph_t_ptr]"

definition PyIGraph_ToCGraph_NUM :: nat where
  "PyIGraph_ToCGraph_NUM = 1"

definition PyIGraph_ToCGraph_RETURN :: ctype where
  "PyIGraph_ToCGraph_RETURN = igraph_t_ptr"

definition PyIGraph_ToCGraph_PROTO :: "ctype list" where
  "PyIGraph_ToCGraph_PROTO = [PyObject_ptr]"

definition PyIGraph_API_pointers :: nat where
  "PyIGraph_API_pointers = 2"

subsection \<open>import_igraph\<close>

text \<open>
  \<^verbatim>\<open>
  /* Return -1 and set exception on error, 0 on success */
  static int import_igraph(void) {
    PyObject *c_api_object;
    PyObject *module;

    module = PyImport_ImportModule("igraph._igraph");
    if (module == 0)
      return -1;

    c_api_object = PyObject_GetAttrString(module, "_C_API");
    if (c_api_object == 0) {
      Py_DECREF(module);
      return -1;
    }

    if (PyCObject_Check(c_api_object))
      PyIGraph_API = (void**)PyCObject_AsVoidPtr(c_api_object);

    Py_DECREF(c_api_object);
    Py_DECREF(module);
    return 0;
  }
  \<close>
  The function takes the process state and returns the C return value with the state it
  leaves.
\<close>

definition import_igraph ::
  "'r py_runtime \<Rightarrow> ('r, 'z) process_scheme \<Rightarrow> int \<times> ('r, 'z) process_scheme" where
  "import_igraph R s =
     (case PyImport_ImportModule R ''igraph._igraph'' (py s) of (module, r1) \<Rightarrow>
        if module = 0 then (- 1, s\<lparr>py := r1\<rparr>)
        else
          (case PyObject_GetAttrString R module ''_C_API'' r1 of (c_api_object, r2) \<Rightarrow>
             if c_api_object = 0 then (- 1, s\<lparr>py := Py_DECREF R module r2\<rparr>)
             else
               (case PyCObject_Check R c_api_object r2 of (is_cobject, r3) \<Rightarrow>
                  let s4 = (if is_cobject
                            then (case PyCObject_AsVoidPtr R c_api_object r3 of (p, r4) \<Rightarrow>
                                    s\<lparr>PyIGraph_API := p, py := r4\<rparr>)
                            else s\<lparr>py := r3\<rparr>)
                  in (0, s4\<lparr>py := Py_DECREF R module (Py_DECREF R c_api_object (py s4))\<rparr>))))"

subsection \<open>The two macros that read the table\<close>

text \<open>
  \<^verbatim>\<open>
  # define PyIGraph_FromCGraph \
           (*(PyIGraph_FromCGraph_RETURN (*)PyIGraph_FromCGraph_PROTO) \
  		 PyIGraph_API[PyIGraph_FromCGraph_NUM])
  # define PyIGraph_ToCGraph \
           (*(PyIGraph_ToCGraph_RETURN (*)PyIGraph_ToCGraph_PROTO) \
  		 PyIGraph_API[PyIGraph_ToCGraph_NUM])
  \<close>
  Each macro reads one slot of the array \<^verbatim>\<open>PyIGraph_API\<close> points to and casts the
  \<^verbatim>\<open>void*\<close> found there to a pointer to a function of the stated type. \<open>mem base i\<close> is
  the content of slot \<open>i\<close> of the array at \<open>base\<close>; the read is not bounds-checked, so
  \<open>mem\<close> is total. A \<open>cfunction\<close> is the outcome of the cast: the address with the
  signature the consumer will call it by.
\<close>

record cfunction =
  address :: voidptr
  returns :: ctype
  takes :: "ctype list"

definition PyIGraph_FromCGraph ::
  "(voidptr \<Rightarrow> nat \<Rightarrow> voidptr) \<Rightarrow> ('r, 'z) process_scheme \<Rightarrow> cfunction" where
  "PyIGraph_FromCGraph mem s =
     \<lparr>address = mem (PyIGraph_API s) PyIGraph_FromCGraph_NUM,
      returns = PyIGraph_FromCGraph_RETURN,
      takes = PyIGraph_FromCGraph_PROTO\<rparr>"

definition PyIGraph_ToCGraph ::
  "(voidptr \<Rightarrow> nat \<Rightarrow> voidptr) \<Rightarrow> ('r, 'z) process_scheme \<Rightarrow> cfunction" where
  "PyIGraph_ToCGraph mem s =
     \<lparr>address = mem (PyIGraph_API s) PyIGraph_ToCGraph_NUM,
      returns = PyIGraph_ToCGraph_RETURN,
      takes = PyIGraph_ToCGraph_PROTO\<rparr>"

text \<open>The slots the header assigns, in the order it declares them.\<close>

definition declared_slots :: "nat list" where
  "declared_slots = [PyIGraph_FromCGraph_NUM, PyIGraph_ToCGraph_NUM]"

subsection \<open>Repeated calls\<close>

text \<open>
  \<^verbatim>\<open>import_igraph\<close> called once per element of the list. Between two calls the rest of the
  program runs and may change the interpreter (load or unload modules, rebind attributes):
  each element is that change, applied to the interpreter state just before the call.
  \<open>id\<close> is a call that follows the previous one directly.
\<close>

fun import_igraph_calls ::
  "'r py_runtime \<Rightarrow> ('r \<Rightarrow> 'r) list \<Rightarrow> ('r, 'z) process_scheme \<Rightarrow> ('r, 'z) process_scheme" where
  "import_igraph_calls R [] s = s"
| "import_igraph_calls R (f # fs) s =
     import_igraph_calls R fs (snd (import_igraph R (s\<lparr>py := f (py s)\<rparr>)))"

subsection \<open>Recording the runtime calls\<close>

text \<open>
  To speak about which runtime calls a run makes, and in which order, any runtime can be
  wrapped so that it appends each call it serves, with its arguments and its result, to a
  log kept beside its state. The wrapped runtime answers as the original does.
\<close>

datatype event =
    Ev_ImportModule string obj
  | Ev_GetAttrString obj string obj
  | Ev_Check obj bool
  | Ev_AsVoidPtr obj voidptr
  | Ev_DECREF obj

definition logged :: "'r py_runtime \<Rightarrow> ('r \<times> event list) py_runtime" where
  "logged R =
     \<lparr>PyImport_ImportModule = (\<lambda>name (r, l).
        case PyImport_ImportModule R name r of (m, r') \<Rightarrow> (m, (r', l @ [Ev_ImportModule name m]))),
      PyObject_GetAttrString = (\<lambda>ob name (r, l).
        case PyObject_GetAttrString R ob name r of (v, r') \<Rightarrow>
          (v, (r', l @ [Ev_GetAttrString ob name v]))),
      PyCObject_Check = (\<lambda>ob (r, l).
        case PyCObject_Check R ob r of (b, r') \<Rightarrow> (b, (r', l @ [Ev_Check ob b]))),
      PyCObject_AsVoidPtr = (\<lambda>ob (r, l).
        case PyCObject_AsVoidPtr R ob r of (p, r') \<Rightarrow> (p, (r', l @ [Ev_AsVoidPtr ob p]))),
      Py_DECREF = (\<lambda>ob (r, l). (Py_DECREF R ob r, l @ [Ev_DECREF ob])),
      PyErr_Occurred = (\<lambda>(r, l). PyErr_Occurred R r)\<rparr>"

text \<open>The process state of the wrapped runtime without its log.\<close>

definition unlogged :: "('r \<times> event list, 'z) process_scheme \<Rightarrow> ('r, 'z) process_scheme" where
  "unlogged s = process.extend \<lparr>PyIGraph_API = PyIGraph_API s, py = fst (py s)\<rparr> (process.more s)"

text \<open>
  A process state of the runtime put under a wrapped one, the log empty; the calls one run of
  \<^verbatim>\<open>import_igraph\<close> makes from a state; and the calls a sequence of runs makes.
\<close>

definition with_log :: "('r, 'z) process_scheme \<Rightarrow> ('r \<times> event list, 'z) process_scheme" where
  "with_log s = process.extend \<lparr>PyIGraph_API = PyIGraph_API s, py = (py s, [])\<rparr> (process.more s)"

definition calls_made :: "'r py_runtime \<Rightarrow> ('r, 'z) process_scheme \<Rightarrow> event list" where
  "calls_made R s = snd (py (snd (import_igraph (logged R) (with_log s))))"

definition calls_made_all ::
  "'r py_runtime \<Rightarrow> ('r \<Rightarrow> 'r) list \<Rightarrow> ('r, 'z) process_scheme \<Rightarrow> event list" where
  "calls_made_all R fs s =
     snd (py (import_igraph_calls (logged R) (map apfst fs) (with_log s)))"

text \<open>
  The four logs a run can leave: the import returned null; the module \<open>m\<close> was imported and
  the attribute lookup returned null; the attribute \<open>c\<close> was found and did not pass the type
  check; it passed and was unwrapped to \<open>p\<close>.
\<close>

definition trace_import_failed :: "event list" where
  "trace_import_failed = [Ev_ImportModule ''igraph._igraph'' 0]"

definition trace_attr_missing :: "obj \<Rightarrow> event list" where
  "trace_attr_missing m =
     [Ev_ImportModule ''igraph._igraph'' m, Ev_GetAttrString m ''_C_API'' 0, Ev_DECREF m]"

definition trace_wrong_type :: "obj \<Rightarrow> obj \<Rightarrow> event list" where
  "trace_wrong_type m c =
     [Ev_ImportModule ''igraph._igraph'' m, Ev_GetAttrString m ''_C_API'' c, Ev_Check c False,
      Ev_DECREF c, Ev_DECREF m]"

definition trace_acquired :: "obj \<Rightarrow> obj \<Rightarrow> voidptr \<Rightarrow> event list" where
  "trace_acquired m c p =
     [Ev_ImportModule ''igraph._igraph'' m, Ev_GetAttrString m ''_C_API'' c, Ev_Check c True,
      Ev_AsVoidPtr c p, Ev_DECREF c, Ev_DECREF m]"

text \<open>A logged lookup that returned null.\<close>

fun lookup_failed :: "event \<Rightarrow> bool" where
  "lookup_failed (Ev_ImportModule name m) = (m = 0)"
| "lookup_failed (Ev_GetAttrString ob name v) = (v = 0)"
| "lookup_failed _ = False"

text \<open>
  What the runtime answers to the two lookups of \<^verbatim>\<open>import_igraph\<close>, asked from the
  interpreter state \<open>r\<close>: the import of \<^verbatim>\<open>igraph._igraph\<close> is answered with null, or it is
  answered with a module and the lookup of \<^verbatim>\<open>_C_API\<close> on that module, in the state the
  import left, is answered with null.
\<close>

definition lookup_answers_null :: "'r py_runtime \<Rightarrow> 'r \<Rightarrow> bool" where
  "lookup_answers_null R r =
     (case PyImport_ImportModule R ''igraph._igraph'' r of (m, r1) \<Rightarrow>
        m = 0 \<or> fst (PyObject_GetAttrString R m ''_C_API'' r1) = 0)"

text \<open>
  The new reference a logged call hands to its caller, if any:
  \<^verbatim>\<open>PyImport_ImportModule\<close> and \<^verbatim>\<open>PyObject_GetAttrString\<close> return a new reference unless
  they return null. The reference a logged call gives back: \<^verbatim>\<open>Py_DECREF\<close>.
\<close>

fun acquires :: "event \<Rightarrow> obj \<Rightarrow> bool" where
  "acquires (Ev_ImportModule name m) ob = (0 < m \<and> m = ob)"
| "acquires (Ev_GetAttrString m name v) ob = (0 < v \<and> v = ob)"
| "acquires _ ob = False"

fun releases :: "event \<Rightarrow> obj \<Rightarrow> bool" where
  "releases (Ev_DECREF x) ob = (x = ob)"
| "releases _ ob = False"

text \<open>The references to \<open>ob\<close> a run with this log still holds: acquired and not released.\<close>

definition refs_held :: "event list \<Rightarrow> obj \<Rightarrow> int" where
  "refs_held evs ob =
     int (length (filter (\<lambda>e. acquires e ob) evs)) - int (length (filter (\<lambda>e. releases e ob) evs))"

text \<open>
  The pointer the most recent \<^verbatim>\<open>PyCObject_AsVoidPtr\<close> call of a log returned, \<open>d\<close> when the
  log has no such call.
\<close>

fun last_unwrapped :: "voidptr \<Rightarrow> event list \<Rightarrow> voidptr" where
  "last_unwrapped d [] = d"
| "last_unwrapped d (Ev_AsVoidPtr ob p # evs) = last_unwrapped p evs"
| "last_unwrapped d (e # evs) = last_unwrapped d evs"

fun is_unwrap :: "event \<Rightarrow> bool" where
  "is_unwrap (Ev_AsVoidPtr ob p) = True"
| "is_unwrap _ = False"

fun is_passed_check :: "event \<Rightarrow> bool" where
  "is_passed_check (Ev_Check ob b) = b"
| "is_passed_check _ = False"

subsection \<open>The runtime's error protocol\<close>

text \<open>
  What the C API reference promises and \<^verbatim>\<open>import_igraph\<close> relies on for its
  \<^verbatim>\<open>/* Return -1 and set exception on error */\<close>: a null result of
  \<^verbatim>\<open>PyImport_ImportModule\<close> or \<^verbatim>\<open>PyObject_GetAttrString\<close> comes with an exception set, and
  \<^verbatim>\<open>Py_DECREF\<close> leaves the error indicator as it found it.
\<close>

definition error_protocol :: "'r py_runtime \<Rightarrow> bool" where
  "error_protocol R \<longleftrightarrow>
     (\<forall>name r. fst (PyImport_ImportModule R name r) = 0 \<longrightarrow>
        0 < PyErr_Occurred R (snd (PyImport_ImportModule R name r))) \<and>
     (\<forall>ob name r. fst (PyObject_GetAttrString R ob name r) = 0 \<longrightarrow>
        0 < PyErr_Occurred R (snd (PyObject_GetAttrString R ob name r))) \<and>
     (\<forall>ob r. PyErr_Occurred R (Py_DECREF R ob r) = PyErr_Occurred R r)"

subsection \<open>A reference interpreter\<close>

text \<open>
  A small interpreter that follows the C API reference for the five entry points, to run
  \<^verbatim>\<open>import_igraph\<close> on concrete process states. \<open>importable\<close> is what an import of a name
  yields, \<open>attrs\<close> the attributes of each object, \<open>cobject\<close> the objects of type
  \<^verbatim>\<open>PyCObject\<close> with the pointer each wraps, \<open>ob_refcnt\<close> the reference counts and
  \<open>curexc_type\<close> the error indicator (null when no exception is pending). The addresses of
  the exception types are arbitrary, distinct and not null.
\<close>

record interp =
  importable :: "string \<rightharpoonup> obj"
  attrs :: "obj \<Rightarrow> string \<rightharpoonup> obj"
  cobject :: "obj \<rightharpoonup> voidptr"
  ob_refcnt :: "obj \<Rightarrow> nat"
  curexc_type :: obj

definition PyExc_ImportError :: obj where
  "PyExc_ImportError = 901"

definition PyExc_AttributeError :: obj where
  "PyExc_AttributeError = 902"

definition PyExc_TypeError :: obj where
  "PyExc_TypeError = 903"

definition Py_INCREF_ref :: "obj \<Rightarrow> interp \<Rightarrow> interp" where
  "Py_INCREF_ref ob r = r\<lparr>ob_refcnt := (ob_refcnt r)(ob := ob_refcnt r ob + 1)\<rparr>"

definition Py_DECREF_ref :: "obj \<Rightarrow> interp \<Rightarrow> interp" where
  "Py_DECREF_ref ob r = r\<lparr>ob_refcnt := (ob_refcnt r)(ob := ob_refcnt r ob - 1)\<rparr>"

definition PyImport_ImportModule_ref :: "string \<Rightarrow> interp \<Rightarrow> obj \<times> interp" where
  "PyImport_ImportModule_ref name r =
     (case importable r name of
        None \<Rightarrow> (0, r\<lparr>curexc_type := PyExc_ImportError\<rparr>)
      | Some m \<Rightarrow> if m = 0 then (0, r\<lparr>curexc_type := PyExc_ImportError\<rparr>)
                  else (m, Py_INCREF_ref m r))"

definition PyObject_GetAttrString_ref :: "obj \<Rightarrow> string \<Rightarrow> interp \<Rightarrow> obj \<times> interp" where
  "PyObject_GetAttrString_ref ob name r =
     (case attrs r ob name of
        None \<Rightarrow> (0, r\<lparr>curexc_type := PyExc_AttributeError\<rparr>)
      | Some v \<Rightarrow> if v = 0 then (0, r\<lparr>curexc_type := PyExc_AttributeError\<rparr>)
                  else (v, Py_INCREF_ref v r))"

definition PyCObject_Check_ref :: "obj \<Rightarrow> interp \<Rightarrow> bool \<times> interp" where
  "PyCObject_Check_ref ob r = (cobject r ob \<noteq> None, r)"

definition PyCObject_AsVoidPtr_ref :: "obj \<Rightarrow> interp \<Rightarrow> voidptr \<times> interp" where
  "PyCObject_AsVoidPtr_ref ob r =
     (case cobject r ob of
        None \<Rightarrow> (0, r\<lparr>curexc_type := PyExc_TypeError\<rparr>)
      | Some p \<Rightarrow> (p, r))"

definition ref_runtime :: "interp py_runtime" where
  "ref_runtime =
     \<lparr>PyImport_ImportModule = PyImport_ImportModule_ref,
      PyObject_GetAttrString = PyObject_GetAttrString_ref,
      PyCObject_Check = PyCObject_Check_ref,
      PyCObject_AsVoidPtr = PyCObject_AsVoidPtr_ref,
      Py_DECREF = Py_DECREF_ref,
      PyErr_Occurred = curexc_type\<rparr>"

text \<open>
  Four interpreters: igraph installed as it should be (module object at 10, its \<^verbatim>\<open>_C_API\<close>
  at 20, a \<^verbatim>\<open>PyCObject\<close> wrapping the table at address 4096); igraph not installed; a
  module \<^verbatim>\<open>igraph._igraph\<close> without \<^verbatim>\<open>_C_API\<close>; and one whose \<^verbatim>\<open>_C_API\<close> is an object of
  another type.
\<close>

definition interp_ok :: interp where
  "interp_ok =
     \<lparr>importable = [''igraph._igraph'' \<mapsto> 10],
      attrs = (\<lambda>ob. if ob = 10 then [''_C_API'' \<mapsto> 20] else Map.empty),
      cobject = [20 \<mapsto> 4096],
      ob_refcnt = (\<lambda>ob. 1),
      curexc_type = 0\<rparr>"

definition interp_no_module :: interp where
  "interp_no_module = interp_ok\<lparr>importable := Map.empty\<rparr>"

definition interp_no_attr :: interp where
  "interp_no_attr = interp_ok\<lparr>attrs := (\<lambda>ob. Map.empty)\<rparr>"

definition interp_wrong_type :: interp where
  "interp_wrong_type = interp_ok\<lparr>cobject := Map.empty\<rparr>"

text \<open>The rest of the program uninstalling igraph between two calls.\<close>

definition unload_igraph :: "interp \<Rightarrow> interp" where
  "unload_igraph r = r\<lparr>importable := (importable r)(''igraph._igraph'' := None)\<rparr>"

text \<open>A process whose \<^verbatim>\<open>PyIGraph_API\<close> holds \<open>a\<close> and whose interpreter is \<open>r\<close>.\<close>

definition process_of :: "voidptr \<Rightarrow> 'r \<Rightarrow> 'r process" where
  "process_of a r = \<lparr>PyIGraph_API = a, py = r\<rparr>"

section \<open>Auxiliary facts\<close>

lemmas ref_defs = ref_runtime_def PyImport_ImportModule_ref_def PyObject_GetAttrString_ref_def
  PyCObject_Check_ref_def PyCObject_AsVoidPtr_ref_def Py_DECREF_ref_def Py_INCREF_ref_def
  PyExc_ImportError_def PyExc_AttributeError_def PyExc_TypeError_def
  interp_ok_def interp_no_module_def interp_no_attr_def interp_wrong_type_def process_of_def

lemmas trace_defs = trace_import_failed_def trace_attr_missing_def trace_wrong_type_def
  trace_acquired_def

lemmas run_defs = import_igraph_def calls_made_def calls_made_all_def with_log_def logged_def
  process.defs unload_igraph_def

text \<open>The reference interpreter keeps the error protocol.\<close>

lemma ref_error_protocol: "error_protocol ref_runtime"
  by (auto simp: error_protocol_def ref_defs split: option.splits)

subsection \<open>A wrapped runtime runs as the original\<close>

lemma unlogged_with_log [simp]: "unlogged (with_log s) = s"
  by (simp add: unlogged_def with_log_def process.defs)

lemma unlogged_simps [simp]:
  "PyIGraph_API (unlogged t) = PyIGraph_API t"
  "py (unlogged t) = fst (py t)"
  "process.more (unlogged t) = process.more t"
  by (simp_all add: unlogged_def process.defs)

lemma with_log_simps [simp]:
  "PyIGraph_API (with_log s) = PyIGraph_API s"
  "py (with_log s) = (py s, [])"
  "process.more (with_log s) = process.more s"
  by (simp_all add: with_log_def process.defs)

lemma unlogged_update:
  "unlogged (t\<lparr>py := (r, l)\<rparr>) = (unlogged t)\<lparr>py := r\<rparr>"
  "unlogged (t\<lparr>PyIGraph_API := a\<rparr>) = (unlogged t)\<lparr>PyIGraph_API := a\<rparr>"
  by (simp_all add: unlogged_def process.defs)

text \<open>
  One call under the wrapped runtime returns what the call under the original returns and
  leaves, the log aside, the same process state.
\<close>

lemma logged_call:
  fixes t :: "('r \<times> event list, 'z) process_scheme"
  shows "import_igraph R (unlogged t) =
           (fst (import_igraph (logged R) t), unlogged (snd (import_igraph (logged R) t)))"
  by (cases "py t")
     (auto simp: import_igraph_def logged_def unlogged_update Let_def split: prod.splits)

lemma logged_run:
  "import_igraph R s =
     (fst (import_igraph (logged R) (with_log s)),
      unlogged (snd (import_igraph (logged R) (with_log s))))"
  using logged_call [of R "with_log s"] by simp

text \<open>The same for a sequence of calls.\<close>

lemma logged_calls_sim:
  fixes t :: "('r \<times> event list, 'z) process_scheme"
  shows "import_igraph_calls R fs (unlogged t) =
     unlogged (import_igraph_calls (logged R) (map apfst fs) t)"
proof (induction fs arbitrary: t)
  case Nil
  then show ?case by simp
next
  case (Cons f fs)
  define t1 where "t1 = t\<lparr>py := apfst f (py t)\<rparr>"
  have u: "(unlogged t)\<lparr>py := f (py (unlogged t))\<rparr> = unlogged t1"
    by (cases "py t") (simp add: t1_def unlogged_def process.defs)
  have "import_igraph_calls R (f # fs) (unlogged t) =
          import_igraph_calls R fs (snd (import_igraph R (unlogged t1)))"
    by (simp only: import_igraph_calls.simps u)
  also have "\<dots> = import_igraph_calls R fs (unlogged (snd (import_igraph (logged R) t1)))"
    by (simp add: logged_call [of R t1])
  also have "\<dots> = unlogged (import_igraph_calls (logged R) (map apfst fs)
                      (snd (import_igraph (logged R) t1)))"
    by (rule Cons.IH)
  finally show ?case by (simp add: t1_def)
qed

subsection \<open>What one call appends to the log\<close>

lemma logged_shapes:
  fixes t :: "('r \<times> event list, 'z) process_scheme"
  shows "\<exists>m c p.
     (fst (import_igraph (logged R) t) = - 1 \<and>
      snd (py (snd (import_igraph (logged R) t))) = snd (py t) @ trace_import_failed \<and>
      PyIGraph_API (snd (import_igraph (logged R) t)) = PyIGraph_API t) \<or>
     (0 < m \<and> fst (import_igraph (logged R) t) = - 1 \<and>
      snd (py (snd (import_igraph (logged R) t))) = snd (py t) @ trace_attr_missing m \<and>
      PyIGraph_API (snd (import_igraph (logged R) t)) = PyIGraph_API t) \<or>
     (0 < m \<and> 0 < c \<and> fst (import_igraph (logged R) t) = 0 \<and>
      snd (py (snd (import_igraph (logged R) t))) = snd (py t) @ trace_wrong_type m c \<and>
      PyIGraph_API (snd (import_igraph (logged R) t)) = PyIGraph_API t) \<or>
     (0 < m \<and> 0 < c \<and> fst (import_igraph (logged R) t) = 0 \<and>
      snd (py (snd (import_igraph (logged R) t))) = snd (py t) @ trace_acquired m c p \<and>
      PyIGraph_API (snd (import_igraph (logged R) t)) = p)"
proof (cases "py t")
  case (Pair r l)
  obtain m r1 where i: "PyImport_ImportModule R ''igraph._igraph'' r = (m, r1)" by force
  obtain c r2 where g: "PyObject_GetAttrString R m ''_C_API'' r1 = (c, r2)" by force
  obtain b r3 where k: "PyCObject_Check R c r2 = (b, r3)" by force
  obtain p r4 where u: "PyCObject_AsVoidPtr R c r3 = (p, r4)" by force
  show ?thesis
  proof (cases "m = 0")
    case True
    then show ?thesis using Pair i by (simp add: import_igraph_def logged_def trace_defs)
  next
    case m: False
    show ?thesis
    proof (cases "c = 0")
      case True
      then have "0 < m \<and> fst (import_igraph (logged R) t) = - 1 \<and>
        snd (py (snd (import_igraph (logged R) t))) = snd (py t) @ trace_attr_missing m \<and>
        PyIGraph_API (snd (import_igraph (logged R) t)) = PyIGraph_API t"
        using Pair i g m by (simp add: import_igraph_def logged_def trace_defs)
      then show ?thesis by blast
    next
      case c: False
      show ?thesis
      proof (cases b)
        case True
        then have "0 < m \<and> 0 < c \<and> fst (import_igraph (logged R) t) = 0 \<and>
          snd (py (snd (import_igraph (logged R) t))) = snd (py t) @ trace_acquired m c p \<and>
          PyIGraph_API (snd (import_igraph (logged R) t)) = p"
          using Pair i g k u m c by (simp add: import_igraph_def logged_def trace_defs)
        then show ?thesis by blast
      next
        case False
        then have "0 < m \<and> 0 < c \<and> fst (import_igraph (logged R) t) = 0 \<and>
          snd (py (snd (import_igraph (logged R) t))) = snd (py t) @ trace_wrong_type m c \<and>
          PyIGraph_API (snd (import_igraph (logged R) t)) = PyIGraph_API t"
          using Pair i g k m c by (simp add: import_igraph_def logged_def trace_defs)
        then show ?thesis by blast
      qed
    qed
  qed
qed

lemma run_shapes:
  "\<exists>m c p.
     (calls_made R s = trace_import_failed \<and> fst (import_igraph R s) = - 1 \<and>
      PyIGraph_API (snd (import_igraph R s)) = PyIGraph_API s) \<or>
     (0 < m \<and> calls_made R s = trace_attr_missing m \<and> fst (import_igraph R s) = - 1 \<and>
      PyIGraph_API (snd (import_igraph R s)) = PyIGraph_API s) \<or>
     (0 < m \<and> 0 < c \<and> calls_made R s = trace_wrong_type m c \<and> fst (import_igraph R s) = 0 \<and>
      PyIGraph_API (snd (import_igraph R s)) = PyIGraph_API s) \<or>
     (0 < m \<and> 0 < c \<and> calls_made R s = trace_acquired m c p \<and> fst (import_igraph R s) = 0 \<and>
      PyIGraph_API (snd (import_igraph R s)) = p)"
  using logged_shapes [of R "with_log s"]
  unfolding calls_made_def logged_run [of R s] by simp blast

subsection \<open>The stored pointer along a log\<close>

lemma last_unwrapped_append:
  "last_unwrapped d (xs @ ys) = last_unwrapped (last_unwrapped d xs) ys"
  by (induction d xs rule: last_unwrapped.induct) simp_all

lemma logged_call_api:
  fixes t :: "('r \<times> event list, 'z) process_scheme"
  shows "\<exists>new. snd (py (snd (import_igraph (logged R) t))) = snd (py t) @ new \<and>
     PyIGraph_API (snd (import_igraph (logged R) t)) = last_unwrapped (PyIGraph_API t) new"
  using logged_shapes [of R t] by (auto simp: trace_defs)

lemma logged_calls_api:
  fixes t :: "('r \<times> event list, 'z) process_scheme"
  shows "\<exists>new. snd (py (import_igraph_calls (logged R) (map apfst fs) t)) = snd (py t) @ new \<and>
     PyIGraph_API (import_igraph_calls (logged R) (map apfst fs) t) =
       last_unwrapped (PyIGraph_API t) new"
proof (induction fs arbitrary: t)
  case Nil
  then show ?case by simp
next
  case (Cons f fs)
  define t1 where "t1 = t\<lparr>py := apfst f (py t)\<rparr>"
  define t2 where "t2 = snd (import_igraph (logged R) t1)"
  obtain n1 where n1: "snd (py t2) = snd (py t1) @ n1"
    "PyIGraph_API t2 = last_unwrapped (PyIGraph_API t1) n1"
    using logged_call_api [of R t1] unfolding t2_def by blast
  obtain n2 where n2:
    "snd (py (import_igraph_calls (logged R) (map apfst fs) t2)) = snd (py t2) @ n2"
    "PyIGraph_API (import_igraph_calls (logged R) (map apfst fs) t2) =
       last_unwrapped (PyIGraph_API t2) n2"
    using Cons.IH [of t2] by blast
  have "snd (py t1) = snd (py t)" "PyIGraph_API t1 = PyIGraph_API t"
    by (simp_all add: t1_def)
  with n1 n2 have
    "snd (py (import_igraph_calls (logged R) (map apfst (f # fs)) t)) = snd (py t) @ (n1 @ n2) \<and>
     PyIGraph_API (import_igraph_calls (logged R) (map apfst (f # fs)) t) =
       last_unwrapped (PyIGraph_API t) (n1 @ n2)"
    by (simp add: t1_def t2_def last_unwrapped_append)
  then show ?case by blast
qed

section \<open>The claims\<close>

subsection \<open>When does the call report success\<close>

text \<open>
  C1. The claim: \<^verbatim>\<open>import_igraph\<close> returns \<open>0\<close> if and only if \<^verbatim>\<open>igraph._igraph\<close> can be
  imported, publishes \<^verbatim>\<open>_C_API\<close>, and that attribute passes \<^verbatim>\<open>PyCObject_Check\<close>. The
  function does test the type, but the test has no \<^verbatim>\<open>else\<close>: its comment promises
  \<^verbatim>\<open>-1\<close> on error, the two lookups before it return \<^verbatim>\<open>-1\<close>, and a failed type test falls
  through to \<^verbatim>\<open>return 0\<close>. The theorem runs the function in the interpreter whose \<^verbatim>\<open>_C_API\<close>
  (object 20 of module 10) is not a \<^verbatim>\<open>PyCObject\<close>: the call returns \<open>0\<close>, sets no
  exception and leaves \<^verbatim>\<open>PyIGraph_API\<close> null.
\<close>

theorem import_igraph_wrong_type_returns_0:
  "importable interp_wrong_type ''igraph._igraph'' = Some 10 \<and>
   attrs interp_wrong_type 10 ''_C_API'' = Some 20 \<and>
   fst (PyCObject_Check ref_runtime 20 interp_wrong_type) = False \<and>
   import_igraph ref_runtime (process_of 0 interp_wrong_type) = (0, process_of 0 interp_wrong_type)"
  by (simp add: import_igraph_def ref_defs fun_eq_iff)

text \<open>
  C2. When the import and the attribute lookup succeed and \<^verbatim>\<open>PyCObject_Check\<close> is false on
  the attribute, \<^verbatim>\<open>import_igraph\<close> returns \<open>0\<close> and \<^verbatim>\<open>PyIGraph_API\<close> keeps the value it had.
\<close>

theorem import_igraph_type_mismatch_silent:
  assumes "PyImport_ImportModule R ''igraph._igraph'' (py s) = (m, r1)" and "0 < m"
    and "PyObject_GetAttrString R m ''_C_API'' r1 = (c, r2)" and "0 < c"
    and "fst (PyCObject_Check R c r2) = False"
  shows "fst (import_igraph R s) = 0 \<and> PyIGraph_API (snd (import_igraph R s)) = PyIGraph_API s"
  using assms by (auto simp: import_igraph_def split: prod.splits)

theorem import_igraph_type_mismatch_silent_witness:
  "fst (PyCObject_Check ref_runtime 20
          (Py_INCREF_ref 20 (Py_INCREF_ref 10 interp_wrong_type))) = False \<and>
   fst (import_igraph ref_runtime (process_of 7 interp_wrong_type)) = 0 \<and>
   PyIGraph_API (snd (import_igraph ref_runtime (process_of 7 interp_wrong_type))) = 7"
  using import_igraph_type_mismatch_silent
    [of ref_runtime "process_of 7 interp_wrong_type" 10 "Py_INCREF_ref 10 interp_wrong_type"
        20 "Py_INCREF_ref 20 (Py_INCREF_ref 10 interp_wrong_type)"]
  by (simp add: ref_defs)

subsection \<open>The two reported failures\<close>

text \<open>
  C3. When \<^verbatim>\<open>PyImport_ImportModule("igraph._igraph")\<close> returns null, \<^verbatim>\<open>import_igraph\<close>
  returns \<open>-1\<close> and \<^verbatim>\<open>PyIGraph_API\<close> has the value it had before the call. This holds in
  every process state and for every runtime.
\<close>

theorem import_igraph_module_missing:
  assumes "fst (PyImport_ImportModule R ''igraph._igraph'' (py s)) = 0"
  shows "fst (import_igraph R s) = - 1 \<and> PyIGraph_API (snd (import_igraph R s)) = PyIGraph_API s"
  using assms by (auto simp: import_igraph_def split: prod.splits)

theorem import_igraph_module_missing_witness:
  "fst (PyImport_ImportModule ref_runtime ''igraph._igraph''
          (py (process_of 7 interp_no_module))) = 0 \<and>
   fst (import_igraph ref_runtime (process_of 7 interp_no_module)) = - 1 \<and>
   PyIGraph_API (snd (import_igraph ref_runtime (process_of 7 interp_no_module))) = 7"
  using import_igraph_module_missing [of ref_runtime "process_of 7 interp_no_module"]
  by (simp add: ref_defs)

text \<open>
  C4. When the module is imported and \<^verbatim>\<open>PyObject_GetAttrString(module, "_C_API")\<close> returns
  null, \<^verbatim>\<open>import_igraph\<close> returns \<open>-1\<close>, \<^verbatim>\<open>PyIGraph_API\<close> is unchanged, and the exception the
  lookup raised is still pending on return: under the runtime's error protocol the
  \<^verbatim>\<open>Py_DECREF(module)\<close> that follows the lookup does not disturb it.
\<close>

theorem import_igraph_attribute_missing:
  assumes "error_protocol R"
    and "PyImport_ImportModule R ''igraph._igraph'' (py s) = (m, r1)" and "0 < m"
    and "PyObject_GetAttrString R m ''_C_API'' r1 = (0, r2)"
  shows "fst (import_igraph R s) = - 1 \<and>
         PyIGraph_API (snd (import_igraph R s)) = PyIGraph_API s \<and>
         PyErr_Occurred R (py (snd (import_igraph R s))) = PyErr_Occurred R r2 \<and>
         0 < PyErr_Occurred R r2"
proof -
  have res: "import_igraph R s = (- 1, s\<lparr>py := Py_DECREF R m r2\<rparr>)"
    using assms(2-4) by (simp add: import_igraph_def)
  have "fst (PyObject_GetAttrString R m ''_C_API'' r1) = 0"
    using assms(4) by simp
  with assms(1) have "0 < PyErr_Occurred R (snd (PyObject_GetAttrString R m ''_C_API'' r1))"
    unfolding error_protocol_def by blast
  then have pending: "0 < PyErr_Occurred R r2"
    using assms(4) by simp
  have kept: "PyErr_Occurred R (Py_DECREF R m r2) = PyErr_Occurred R r2"
    using assms(1) unfolding error_protocol_def by blast
  show ?thesis using res pending kept by simp
qed

theorem import_igraph_attribute_missing_witness:
  "error_protocol ref_runtime \<and>
   fst (import_igraph ref_runtime (process_of 7 interp_no_attr)) = - 1 \<and>
   PyIGraph_API (snd (import_igraph ref_runtime (process_of 7 interp_no_attr))) = 7 \<and>
   PyErr_Occurred ref_runtime (py (snd (import_igraph ref_runtime (process_of 7 interp_no_attr)))) =
     PyExc_AttributeError"
  using import_igraph_attribute_missing
    [OF ref_error_protocol, of "process_of 7 interp_no_attr" 10 "Py_INCREF_ref 10 interp_no_attr"
        "(Py_INCREF_ref 10 interp_no_attr)\<lparr>curexc_type := PyExc_AttributeError\<rparr>"]
    ref_error_protocol
  by (simp add: ref_defs)

subsection \<open>Calling more than once\<close>

text \<open>
  C5. The claim: \<^verbatim>\<open>import_igraph\<close> may be called any number of times, each call runs the
  lookup whatever earlier calls did, and after a sequence of calls \<^verbatim>\<open>PyIGraph_API\<close> is the
  value determined by the outcome of the most recent call. The last part fails when the most
  recent call stores nothing. Below, igraph is installed, a first call stores the table
  address 4096, igraph is uninstalled, and a second call fails at the import: \<^verbatim>\<open>PyIGraph_API\<close>
  is still 4096. The same failing call as the only call leaves it null. So two histories
  with the same most recent call, of the same outcome, end with different values.
\<close>

theorem import_igraph_calls_keep_earlier_pointer:
  "calls_made_all ref_runtime [id, unload_igraph] (process_of 0 interp_ok) =
     trace_acquired 10 20 4096 @ trace_import_failed \<and>
   PyIGraph_API (import_igraph_calls ref_runtime [id, unload_igraph] (process_of 0 interp_ok)) = 4096 \<and>
   calls_made_all ref_runtime [unload_igraph] (process_of 0 interp_ok) = trace_import_failed \<and>
   PyIGraph_API (import_igraph_calls ref_runtime [unload_igraph] (process_of 0 interp_ok)) = 0"
  by (simp add: run_defs ref_defs trace_defs)

text \<open>
  C5, as amended. There is no guard: the value of \<^verbatim>\<open>PyIGraph_API\<close> a call finds has no
  influence on what the call returns, on the runtime calls it makes, or on the interpreter
  state it leaves. And after any sequence of calls, with any changes to the interpreter in
  between, \<^verbatim>\<open>PyIGraph_API\<close> is the pointer returned by the most recent
  \<^verbatim>\<open>PyCObject_AsVoidPtr\<close> call of the whole sequence, that is, the one stored by the most
  recent call that passed the type check; calls after it that fail or do not pass the check
  leave it in place. If no call passed the check it is the initial value.
\<close>

theorem import_igraph_calls_last_unwrapped:
  "fst (import_igraph R (s\<lparr>PyIGraph_API := a\<rparr>)) = fst (import_igraph R s) \<and>
   py (snd (import_igraph R (s\<lparr>PyIGraph_API := a\<rparr>))) = py (snd (import_igraph R s)) \<and>
   calls_made R (s\<lparr>PyIGraph_API := a\<rparr>) = calls_made R s \<and>
   PyIGraph_API (import_igraph_calls R fs s) =
     last_unwrapped (PyIGraph_API s) (calls_made_all R fs s)"
proof -
  have g: "\<And>(R :: 'c py_runtime) (s :: ('c, 'd) process_scheme).
     fst (import_igraph R (s\<lparr>PyIGraph_API := a\<rparr>)) = fst (import_igraph R s) \<and>
     py (snd (import_igraph R (s\<lparr>PyIGraph_API := a\<rparr>))) = py (snd (import_igraph R s))"
    by (auto simp: import_igraph_def Let_def split: prod.splits)
  have w: "with_log (s\<lparr>PyIGraph_API := a\<rparr>) = (with_log s)\<lparr>PyIGraph_API := a\<rparr>"
    by (simp add: with_log_def process.defs)
  have c: "calls_made R (s\<lparr>PyIGraph_API := a\<rparr>) = calls_made R s"
    unfolding calls_made_def w using g [of "logged R" "with_log s"] by simp
  have "import_igraph_calls R fs s =
     unlogged (import_igraph_calls (logged R) (map apfst fs) (with_log s))"
    using logged_calls_sim [of R fs "with_log s"] by simp
  moreover obtain new where
    "snd (py (import_igraph_calls (logged R) (map apfst fs) (with_log s))) = new"
    "PyIGraph_API (import_igraph_calls (logged R) (map apfst fs) (with_log s)) =
       last_unwrapped (PyIGraph_API s) new"
    using logged_calls_api [of R fs "with_log s"] by auto
  ultimately have "PyIGraph_API (import_igraph_calls R fs s) =
     last_unwrapped (PyIGraph_API s) (calls_made_all R fs s)"
    by (simp add: calls_made_all_def)
  then show ?thesis using g [of R s] c by simp
qed

theorem import_igraph_calls_last_unwrapped_witness:
  "calls_made_all ref_runtime [id, id, unload_igraph] (process_of 0 interp_ok) =
     trace_acquired 10 20 4096 @ trace_acquired 10 20 4096 @ trace_import_failed \<and>
   PyIGraph_API (import_igraph_calls ref_runtime [id, id, unload_igraph] (process_of 0 interp_ok)) =
     last_unwrapped 0 (trace_acquired 10 20 4096 @ trace_acquired 10 20 4096 @ trace_import_failed) \<and>
   last_unwrapped 0 (trace_acquired 10 20 4096 @ trace_acquired 10 20 4096 @ trace_import_failed) =
     4096 \<and>
   fst (import_igraph ref_runtime (process_of 4096 interp_ok)) =
     fst (import_igraph ref_runtime (process_of 0 interp_ok))"
  using import_igraph_calls_last_unwrapped
    [of ref_runtime 4096 "process_of 0 interp_ok" "[id, id, unload_igraph]"]
  by (simp add: run_defs ref_defs trace_defs)

subsection \<open>The result values\<close>

text \<open>
  C6. \<^verbatim>\<open>import_igraph\<close> returns \<open>-1\<close> or \<open>0\<close> and nothing else. It returns \<open>-1\<close> exactly
  when the runtime answers one of its two lookups with null: the import of
  \<^verbatim>\<open>igraph._igraph\<close>, or, the module imported, the lookup of \<^verbatim>\<open>_C_API\<close> on it. It returns
  \<open>0\<close> exactly when the runtime answers both with an object, whatever the type check says.
  The run's own log agrees: the result is \<open>-1\<close> exactly when a logged lookup returned null.
  With a runtime that keeps the error protocol, an exception is pending whenever the result
  is \<open>-1\<close>.
\<close>

theorem import_igraph_result_values:
  assumes "error_protocol R"
  shows "(fst (import_igraph R s) = - 1 \<or> fst (import_igraph R s) = 0) \<and>
         (fst (import_igraph R s) = - 1) = lookup_answers_null R (py s) \<and>
         (fst (import_igraph R s) = 0) = (\<not> lookup_answers_null R (py s)) \<and>
         (fst (import_igraph R s) = - 1) = list_ex lookup_failed (calls_made R s) \<and>
         (fst (import_igraph R s) = - 1 \<longrightarrow> 0 < PyErr_Occurred R (py (snd (import_igraph R s))))"
proof -
  obtain m r1 where im: "PyImport_ImportModule R ''igraph._igraph'' (py s) = (m, r1)"
    by force
  obtain c r2 where ga: "PyObject_GetAttrString R m ''_C_API'' r1 = (c, r2)"
    by force
  have null: "lookup_answers_null R (py s) = (m = 0 \<or> c = 0)"
    using im ga by (simp add: lookup_answers_null_def)
  have res: "fst (import_igraph R s) = (if m = 0 \<or> c = 0 then - 1 else 0)"
    using im ga by (auto simp: import_igraph_def Let_def split: prod.splits)
  have a: "fst (import_igraph R s) = - 1 \<or> fst (import_igraph R s) = 0"
    using res by simp
  have n: "(fst (import_igraph R s) = - 1) = lookup_answers_null R (py s)"
    using res null by simp
  have z: "(fst (import_igraph R s) = 0) = (\<not> lookup_answers_null R (py s))"
    using res null by simp
  have b: "(fst (import_igraph R s) = - 1) = list_ex lookup_failed (calls_made R s)"
    using run_shapes [of R s] by (auto simp: trace_defs)
  have i: "\<And>name r. fst (PyImport_ImportModule R name r) = 0 \<Longrightarrow>
        0 < PyErr_Occurred R (snd (PyImport_ImportModule R name r))"
    and g: "\<And>ob name r. fst (PyObject_GetAttrString R ob name r) = 0 \<Longrightarrow>
        0 < PyErr_Occurred R (snd (PyObject_GetAttrString R ob name r))"
    and d: "\<And>ob r. PyErr_Occurred R (Py_DECREF R ob r) = PyErr_Occurred R r"
    using assms unfolding error_protocol_def by blast+
  have e: "fst (import_igraph R s) = - 1 \<longrightarrow> 0 < PyErr_Occurred R (py (snd (import_igraph R s)))"
  proof
    assume f: "fst (import_igraph R s) = - 1"
    show "0 < PyErr_Occurred R (py (snd (import_igraph R s)))"
    proof (cases "m = 0")
      case True
      then show ?thesis using im i [of "''igraph._igraph''" "py s"]
        by (simp add: import_igraph_def)
    next
      case False
      then have "c = 0" using f res by (simp split: if_splits)
      then show ?thesis using False im ga g [of m "''_C_API''" r1] d
        by (simp add: import_igraph_def)
    qed
  qed
  show ?thesis using a n z b e by blast
qed

text \<open>
  The four interpreters: igraph not installed and \<^verbatim>\<open>_C_API\<close> missing give \<open>-1\<close> with the
  import error and the attribute error pending; \<^verbatim>\<open>_C_API\<close> of the wrong type and igraph
  installed as it should be give \<open>0\<close>.
\<close>

theorem import_igraph_result_values_witness:
  "error_protocol ref_runtime \<and>
   lookup_answers_null ref_runtime interp_no_module \<and>
   fst (import_igraph ref_runtime (process_of 0 interp_no_module)) = - 1 \<and>
   list_ex lookup_failed (calls_made ref_runtime (process_of 0 interp_no_module)) \<and>
   PyErr_Occurred ref_runtime
     (py (snd (import_igraph ref_runtime (process_of 0 interp_no_module)))) = PyExc_ImportError \<and>
   lookup_answers_null ref_runtime interp_no_attr \<and>
   fst (import_igraph ref_runtime (process_of 0 interp_no_attr)) = - 1 \<and>
   list_ex lookup_failed (calls_made ref_runtime (process_of 0 interp_no_attr)) \<and>
   PyErr_Occurred ref_runtime
     (py (snd (import_igraph ref_runtime (process_of 0 interp_no_attr)))) = PyExc_AttributeError \<and>
   \<not> lookup_answers_null ref_runtime interp_wrong_type \<and>
   fst (import_igraph ref_runtime (process_of 0 interp_wrong_type)) = 0 \<and>
   \<not> lookup_answers_null ref_runtime interp_ok \<and>
   fst (import_igraph ref_runtime (process_of 0 interp_ok)) = 0"
  using import_igraph_result_values [OF ref_error_protocol, of "process_of 0 interp_no_module"]
    import_igraph_result_values [OF ref_error_protocol, of "process_of 0 interp_no_attr"]
    import_igraph_result_values [OF ref_error_protocol, of "process_of 0 interp_wrong_type"]
    import_igraph_result_values [OF ref_error_protocol, of "process_of 0 interp_ok"]
    ref_error_protocol
  by (simp add: run_defs ref_defs trace_defs lookup_answers_null_def)

subsection \<open>The order of the steps\<close>

text \<open>
  C7. The runtime calls of one run of \<^verbatim>\<open>import_igraph\<close>, in order, are one of four
  sequences. The import comes first; if it returns null nothing else is called and the result
  is \<open>-1\<close>. Otherwise the attribute is looked up on the module just imported; if that returns
  null the module is released, nothing else is called and the result is \<open>-1\<close>. Otherwise the
  type check is made on the attribute just retrieved; only if it passes is the handle
  unwrapped, and the pointer it yields is what \<^verbatim>\<open>PyIGraph_API\<close> holds on return. On the first
  three sequences \<^verbatim>\<open>PyIGraph_API\<close> is untouched.
\<close>

theorem import_igraph_call_order:
  "\<exists>m c p.
     (calls_made R s = trace_import_failed \<and> fst (import_igraph R s) = - 1 \<and>
      PyIGraph_API (snd (import_igraph R s)) = PyIGraph_API s) \<or>
     (0 < m \<and> calls_made R s = trace_attr_missing m \<and> fst (import_igraph R s) = - 1 \<and>
      PyIGraph_API (snd (import_igraph R s)) = PyIGraph_API s) \<or>
     (0 < m \<and> 0 < c \<and> calls_made R s = trace_wrong_type m c \<and> fst (import_igraph R s) = 0 \<and>
      PyIGraph_API (snd (import_igraph R s)) = PyIGraph_API s) \<or>
     (0 < m \<and> 0 < c \<and> calls_made R s = trace_acquired m c p \<and> fst (import_igraph R s) = 0 \<and>
      PyIGraph_API (snd (import_igraph R s)) = p)"
  by (rule run_shapes)

theorem import_igraph_call_order_witness:
  "calls_made ref_runtime (process_of 0 interp_ok) = trace_acquired 10 20 4096 \<and>
   calls_made ref_runtime (process_of 0 interp_wrong_type) = trace_wrong_type 10 20 \<and>
   calls_made ref_runtime (process_of 0 interp_no_attr) = trace_attr_missing 10 \<and>
   calls_made ref_runtime (process_of 0 interp_no_module) = trace_import_failed"
  using import_igraph_call_order [of ref_runtime "process_of 0 interp_ok"]
  by (simp add: run_defs ref_defs trace_defs)

subsection \<open>The table\<close>

text \<open>
  C8. The header declares a table of 2 pointers and assigns the slots \<open>0\<close> and \<open>1\<close>, which are
  all the slots of the table. \<^verbatim>\<open>PyIGraph_FromCGraph\<close> reads slot \<open>0\<close> of the array
  \<^verbatim>\<open>PyIGraph_API\<close> points to, as a function from \<^verbatim>\<open>igraph_t*\<close> to \<^verbatim>\<open>PyObject*\<close>;
  \<^verbatim>\<open>PyIGraph_ToCGraph\<close> reads slot \<open>1\<close>, as a function from \<^verbatim>\<open>PyObject*\<close> to \<^verbatim>\<open>igraph_t*\<close>.
\<close>

theorem capability_table_layout:
  "PyIGraph_API_pointers = 2 \<and>
   declared_slots = [0..<PyIGraph_API_pointers] \<and>
   PyIGraph_FromCGraph mem s =
     \<lparr>address = mem (PyIGraph_API s) 0, returns = PyObject_ptr, takes = [igraph_t_ptr]\<rparr> \<and>
   PyIGraph_ToCGraph mem s =
     \<lparr>address = mem (PyIGraph_API s) 1, returns = igraph_t_ptr, takes = [PyObject_ptr]\<rparr>"
  by (simp add: PyIGraph_API_pointers_def declared_slots_def PyIGraph_FromCGraph_def
      PyIGraph_ToCGraph_def PyIGraph_FromCGraph_NUM_def PyIGraph_ToCGraph_NUM_def
      PyIGraph_FromCGraph_RETURN_def PyIGraph_FromCGraph_PROTO_def
      PyIGraph_ToCGraph_RETURN_def PyIGraph_ToCGraph_PROTO_def upt_rec)

subsection \<open>What a call changes\<close>

text \<open>
  C9. Of the process state outside the interpreter, a call changes nothing but
  \<^verbatim>\<open>PyIGraph_API\<close>: every other part (the extension of the state record) is as before. The
  only statement that assigns \<^verbatim>\<open>PyIGraph_API\<close> is
  \<^verbatim>\<open>PyIGraph_API = (void**)PyCObject_AsVoidPtr(c_api_object)\<close>, so it is assigned as often
  as \<^verbatim>\<open>PyCObject_AsVoidPtr\<close> is called: at most once, and as often as the type check passed.
  Its value on return is the pointer that call returned, and its prior value when there was
  no such call, in particular whenever no check passed.
\<close>

theorem import_igraph_frame:
  "process.more (snd (import_igraph R s)) = process.more s \<and>
   PyIGraph_API (snd (import_igraph R s)) = last_unwrapped (PyIGraph_API s) (calls_made R s) \<and>
   length (filter is_unwrap (calls_made R s)) = length (filter is_passed_check (calls_made R s)) \<and>
   length (filter is_unwrap (calls_made R s)) \<le> 1 \<and>
   (filter is_passed_check (calls_made R s) = [] \<longrightarrow>
      PyIGraph_API (snd (import_igraph R s)) = PyIGraph_API s)"
proof -
  have frame: "process.more (snd (import_igraph R s)) = process.more s"
    by (auto simp: import_igraph_def Let_def split: prod.splits)
  show ?thesis using run_shapes [of R s] frame by (auto simp: trace_defs)
qed

theorem import_igraph_frame_witness:
  "filter is_passed_check (calls_made ref_runtime (process_of 7 interp_wrong_type)) = [] \<and>
   PyIGraph_API (snd (import_igraph ref_runtime (process_of 7 interp_wrong_type))) = 7 \<and>
   filter is_passed_check (calls_made ref_runtime (process_of 7 interp_ok)) = [Ev_Check 20 True] \<and>
   PyIGraph_API (snd (import_igraph ref_runtime (process_of 7 interp_ok))) = 4096"
  using import_igraph_frame [of ref_runtime "process_of 7 interp_wrong_type"]
  by (simp add: run_defs ref_defs trace_defs)

text \<open>
  C10. Over the runtime calls of one run, every object is released by \<^verbatim>\<open>Py_DECREF\<close> exactly
  as many times as a lookup handed it out as a new reference: when the run returns it holds
  no reference it acquired. (By C7 the calls are: nothing acquired when the import fails;
  the module acquired and released when the attribute lookup fails; attribute and module
  acquired, then attribute and module released, on the other two paths.)
\<close>

theorem import_igraph_references_released:
  "refs_held (calls_made R s) ob = 0"
  using run_shapes [of R s] by (auto simp: refs_held_def trace_defs)

theorem import_igraph_references_released_witness:
  "calls_made ref_runtime (process_of 0 interp_ok) = trace_acquired 10 20 4096 \<and>
   refs_held (calls_made ref_runtime (process_of 0 interp_ok)) 10 = 0 \<and>
   ob_refcnt (py (snd (import_igraph ref_runtime (process_of 0 interp_ok)))) 10 =
     ob_refcnt interp_ok 10"
  using import_igraph_references_released [of ref_runtime "process_of 0 interp_ok" 10]
  by (simp add: run_defs ref_defs trace_defs refs_held_def)

end
